theory Spec2Isabelle
  imports Complex_Main "HOL-Library.Log_Nat"
begin

section \<open>Conventions of the embedding\<close>

text \<open>
  The development covers the three pieces of the repository that carry logic: the vision
  estimator \<^verbatim>\<open>analyzeImageWithOpenAI\<close> with its module-level client, the event handler
  \<^verbatim>\<open>updateNutritionData\<close> with its two steps, and the two functions
  \<^verbatim>\<open>analyzeFoodImage\<close> and \<^verbatim>\<open>processNutritionAnalysis\<close> of the AI integration rules.

  Where a JavaScript \<^verbatim>\<open>number\<close> is only compared or passed on (confidence scores, the
  fields of a model reply), it is the real number it denotes: a comparison of two finite
  numbers is exact, so \<^verbatim>\<open>x < 0.7\<close> is the order of the reals, with the literal \<^verbatim>\<open>0.7\<close>
  denoting the same value wherever it is written. Where the program adds, in the daily
  totals, a number is a value of the type \<open>number\<close> below and \<open>+\<close> is the addition of
  IEEE 754 binary64.

  A thrown exception is a value of type \<open>error\<close>, and a function that can throw returns
  \<open>error + 'a\<close> with \<open>Inl\<close> for the exception. An \<^verbatim>\<open>await\<close> of an external service
  (the model provider, the database, the JSON parser of the runtime) is a parameter of
  the function that calls it. An awaited promise that never settles is the value
  \<open>Never\<close> of the type \<open>awaited\<close>.
\<close>

datatype error =
    Error string  \<comment> \<open>\<^verbatim>\<open>new Error(message)\<close>, the generic class\<close>
  | TypeError  \<comment> \<open>a property read on \<^verbatim>\<open>null\<close> or \<^verbatim>\<open>undefined\<close>\<close>
  | APIError string  \<comment> \<open>thrown by the client of the model provider\<close>
  | PostgrestError string  \<comment> \<open>the \<^verbatim>\<open>error\<close> member of a failed query\<close>

datatype 'a awaited = Resolved 'a | Rejected error | Never

section \<open>The vision estimator (\<^verbatim>\<open>src/lib/ai/openai-vision.ts\<close>)\<close>

subsection \<open>The module-level client\<close>

record OpenAI =
  apiKey :: string
  maxRetries :: nat
  timeout :: nat

text \<open>
  Loading the module evaluates the top-level statements: \<^verbatim>\<open>openai\<close> starts as
  \<^verbatim>\<open>null\<close> and is assigned only under \<^verbatim>\<open>if (apiKey)\<close>, which is false for an absent
  variable and for the empty string. The other branch logs a warning and goes on. The
  result is the value of \<^verbatim>\<open>openai\<close> once the module is loaded; no statement of the
  module throws.
\<close>

definition load_module :: "string option \<Rightarrow> error + OpenAI option" where
  "load_module env_key =
     (case env_key of
        None \<Rightarrow> Inr None
      | Some k \<Rightarrow>
          if k \<noteq> [] then Inr (Some \<lparr>apiKey = k, maxRetries = 3, timeout = 60000\<rparr>)
          else Inr None)"

definition getOpenAIClient :: "OpenAI option \<Rightarrow> error + OpenAI" where
  "getOpenAIClient openai =
     (case openai of
        None \<Rightarrow> Inl (Error ''OPENAI_API_KEY environment variable is required'')
      | Some client \<Rightarrow> Inr client)"

subsection \<open>The reply of the provider\<close>

record message =
  content :: "string option"

record choice =
  message :: "message option"

record completion =
  choices :: "choice list"

text \<open>\<^verbatim>\<open>response.choices[0]?.message?.content\<close>: \<open>None\<close> stands for \<^verbatim>\<open>undefined\<close> and \<^verbatim>\<open>null\<close>.\<close>

definition first_content :: "completion \<Rightarrow> string option" where
  "first_content response =
     (case choices response of
        [] \<Rightarrow> None
      | c # _ \<Rightarrow> (case choice.message c of None \<Rightarrow> None | Some m \<Rightarrow> content m))"

subsection \<open>Parsed JSON and the interface \<^verbatim>\<open>NutritionAnalysis\<close>\<close>

text \<open>
  The value \<^verbatim>\<open>JSON.parse\<close> returns. An object is the list of its own properties, each key
  once. The parser itself belongs to the runtime and is a parameter
  \<open>parse :: string \<Rightarrow> json option\<close>, \<open>None\<close> when it throws \<^verbatim>\<open>SyntaxError\<close>.
\<close>

datatype json =
    JNull
  | JBool bool
  | JNum real
  | JStr string
  | JArr "json list"
  | JObj "(string \<times> json) list"

record FoodItem =
  name :: string
  quantity :: string
  calories :: real
  protein_g :: real
  carbs_g :: real
  fat_g :: real
  fiber_g :: real

record NutritionAnalysis =
  foodItems :: "FoodItem list"
  totalCalories :: real
  totalProtein :: real
  totalCarbs :: real
  totalFat :: real
  totalFiber :: real
  confidenceScore :: real
  analysisNotes :: string

text \<open>The JSON text the prompt asks for, as an object value.\<close>

definition item_json :: "FoodItem \<Rightarrow> json" where
  "item_json i =
     JObj [(''name'', JStr (FoodItem.name i)), (''quantity'', JStr (quantity i)),
           (''calories'', JNum (FoodItem.calories i)), (''protein_g'', JNum (protein_g i)),
           (''carbs_g'', JNum (carbs_g i)), (''fat_g'', JNum (fat_g i)),
           (''fiber_g'', JNum (fiber_g i))]"

definition analysis_json :: "NutritionAnalysis \<Rightarrow> json" where
  "analysis_json a =
     JObj [(''foodItems'', JArr (map item_json (NutritionAnalysis.foodItems a))),
           (''totalCalories'', JNum (totalCalories a)),
           (''totalProtein'', JNum (totalProtein a)),
           (''totalCarbs'', JNum (totalCarbs a)),
           (''totalFat'', JNum (totalFat a)),
           (''totalFiber'', JNum (totalFiber a)),
           (''confidenceScore'', JNum (NutritionAnalysis.confidenceScore a)),
           (''analysisNotes'', JStr (analysisNotes a))]"

text \<open>
  Whether a parsed value has the required fields of the interface, each with its declared
  type. The source never evaluates this: \<^verbatim>\<open>as NutritionAnalysis\<close> is erased at compile time.
\<close>

definition is_num :: "json option \<Rightarrow> bool" where
  "is_num v = (case v of Some (JNum _) \<Rightarrow> True | _ \<Rightarrow> False)"

definition is_str :: "json option \<Rightarrow> bool" where
  "is_str v = (case v of Some (JStr _) \<Rightarrow> True | _ \<Rightarrow> False)"

definition is_FoodItem :: "json \<Rightarrow> bool" where
  "is_FoodItem j =
     (case j of
        JObj ps \<Rightarrow>
          is_str (map_of ps ''name'') \<and> is_str (map_of ps ''quantity'') \<and>
          is_num (map_of ps ''calories'') \<and> is_num (map_of ps ''protein_g'') \<and>
          is_num (map_of ps ''carbs_g'') \<and> is_num (map_of ps ''fat_g'') \<and>
          is_num (map_of ps ''fiber_g'')
      | _ \<Rightarrow> False)"

definition is_NutritionAnalysis :: "json \<Rightarrow> bool" where
  "is_NutritionAnalysis j =
     (case j of
        JObj ps \<Rightarrow>
          (case map_of ps ''foodItems'' of
             Some (JArr items) \<Rightarrow> list_all is_FoodItem items
           | _ \<Rightarrow> False) \<and>
          is_num (map_of ps ''totalCalories'') \<and> is_num (map_of ps ''totalProtein'') \<and>
          is_num (map_of ps ''totalCarbs'') \<and> is_num (map_of ps ''totalFat'') \<and>
          is_num (map_of ps ''totalFiber'') \<and> is_num (map_of ps ''confidenceScore'') \<and>
          is_str (map_of ps ''analysisNotes'')
      | _ \<Rightarrow> False)"

text \<open>
  The invariant of the data model that the source leaves unchecked: each total is the sum
  of the items' field.
\<close>

definition totals_match_items :: "NutritionAnalysis \<Rightarrow> bool" where
  "totals_match_items a \<longleftrightarrow>
     totalCalories a = sum_list (map FoodItem.calories (NutritionAnalysis.foodItems a)) \<and>
     totalProtein a = sum_list (map protein_g (NutritionAnalysis.foodItems a)) \<and>
     totalCarbs a = sum_list (map carbs_g (NutritionAnalysis.foodItems a)) \<and>
     totalFat a = sum_list (map fat_g (NutritionAnalysis.foodItems a)) \<and>
     totalFiber a = sum_list (map fiber_g (NutritionAnalysis.foodItems a))"

subsection \<open>Property reads on a parsed value\<close>

text \<open>
  \<^verbatim>\<open>v.key\<close> for the keys the function reads, none of which is an index or inherited:
  a \<^verbatim>\<open>TypeError\<close> on \<^verbatim>\<open>null\<close>, the own property of an object, the length of a string
  or an array, \<^verbatim>\<open>undefined\<close> (\<open>None\<close>) otherwise.
\<close>

definition property :: "json \<Rightarrow> string \<Rightarrow> error + json option" where
  "property v key =
     (case v of
        JNull \<Rightarrow> Inl TypeError
      | JObj ps \<Rightarrow> Inr (map_of ps key)
      | JStr s \<Rightarrow> Inr (if key = ''length'' then Some (JNum (of_nat (length s))) else None)
      | JArr xs \<Rightarrow> Inr (if key = ''length'' then Some (JNum (of_nat (length xs))) else None)
      | _ \<Rightarrow> Inr None)"

text \<open>
  The argument of the \<^verbatim>\<open>logger.info\<close> call after the parse reads
  \<^verbatim>\<open>analysis.totalCalories\<close>, \<^verbatim>\<open>analysis.confidenceScore\<close> and
  \<^verbatim>\<open>analysis.foodItems.length\<close>, in this order; a read that throws ends the function.
\<close>

definition log_fields :: "json \<Rightarrow> error + unit" where
  "log_fields analysis =
     (case property analysis ''totalCalories'' of
        Inl e \<Rightarrow> Inl e
      | Inr _ \<Rightarrow>
         (case property analysis ''confidenceScore'' of
            Inl e \<Rightarrow> Inl e
          | Inr _ \<Rightarrow>
             (case property analysis ''foodItems'' of
                Inl e \<Rightarrow> Inl e
              | Inr None \<Rightarrow> Inl TypeError
              | Inr (Some items) \<Rightarrow>
                 (case property items ''length'' of
                    Inl e \<Rightarrow> Inl e
                  | Inr _ \<Rightarrow> Inr ()))))"

subsection \<open>\<^verbatim>\<open>analyzeImageWithOpenAI\<close>\<close>

text \<open>
  \<open>create client imageBase64\<close> is \<^verbatim>\<open>await client.chat.completions.create(...)\<close>, whose
  request varies with the image only. The outer \<^verbatim>\<open>try\<close>/\<^verbatim>\<open>catch\<close> logs and rethrows the
  error it caught, so every error leaves the function as it was thrown. The value returned
  is the parsed value itself.
\<close>

definition analyzeImageWithOpenAI ::
  "OpenAI option \<Rightarrow> (OpenAI \<Rightarrow> string \<Rightarrow> error + completion) \<Rightarrow> (string \<Rightarrow> json option) \<Rightarrow>
   string \<Rightarrow> error + json" where
  "analyzeImageWithOpenAI openai create parse imageBase64 =
     (case getOpenAIClient openai of
        Inl e \<Rightarrow> Inl e
      | Inr client \<Rightarrow>
         (case create client imageBase64 of
            Inl e \<Rightarrow> Inl e
          | Inr response \<Rightarrow>
             (case first_content response of
                None \<Rightarrow> Inl (Error ''No response from OpenAI'')
              | Some c \<Rightarrow>
                  if c = [] then Inl (Error ''No response from OpenAI'')
                  else
                    (case parse c of
                       None \<Rightarrow> Inl (Error ''Invalid JSON response from OpenAI'')
                     | Some analysis \<Rightarrow>
                        (case log_fields analysis of
                           Inl e \<Rightarrow> Inl e
                         | Inr _ \<Rightarrow> Inr analysis)))))"

text \<open>A provider that answers every request with the one completion \<open>r\<close>.\<close>

definition replying :: "completion \<Rightarrow> OpenAI \<Rightarrow> string \<Rightarrow> error + completion" where
  "replying r client imageBase64 = Inr r"

text \<open>The completion with a single choice whose message has the content \<open>c\<close>.\<close>

definition completion_of :: "string \<Rightarrow> completion" where
  "completion_of c = \<lparr>choices = [\<lparr>choice.message = Some \<lparr>content = Some c\<rparr>\<rparr>]\<rparr>"

section \<open>Numbers that are added\<close>

text \<open>
  A binary64 value: a finite one by the real number it denotes, the two infinities, and
  NaN. The two zeros are one value here; the only place where the program could meet
  \<^verbatim>\<open>-0\<close> is the left operand of \<^verbatim>\<open>|| 0\<close>, which replaces it by \<^verbatim>\<open>0\<close> as it does \<^verbatim>\<open>0\<close>
  itself, and a sum of two values of which one is not \<^verbatim>\<open>-0\<close> is never \<^verbatim>\<open>-0\<close>.
\<close>

datatype number = Fin real | PosInf | NegInf | NaN

definition pow2 :: "int \<Rightarrow> real" where
  "pow2 k = (if 0 \<le> k then 2 ^ nat k else 1 / 2 ^ nat (- k))"

text \<open>The exponent of a positive real: the \<open>e\<close> with \<open>2\<^sup>e \<le> x < 2\<^sup>e\<^sup>+\<^sup>1\<close>.\<close>

definition ilog2 :: "real \<Rightarrow> int" where
  "ilog2 x =
     (if 1 \<le> x then bitlen \<lfloor>x\<rfloor> - 1
      else (let m = \<lfloor>1 / x\<rfloor> in
            if 1 / x = of_int m \<and> m = 2 ^ nat (bitlen m - 1) then - (bitlen m - 1)
            else - bitlen m))"

text \<open>The nearest integer, a tie going to the even one.\<close>

definition round_even :: "real \<Rightarrow> int" where
  "round_even y =
     (let n = \<lfloor>y\<rfloor>; r = y - of_int n in
      if r < 1 / 2 then n else if 1 / 2 < r then n + 1 else if even n then n else n + 1)"

text \<open>
  Rounding of an exact result to binary64, to nearest with ties to even: 53 significant
  bits, so the spacing at exponent \<open>e\<close> is \<open>2\<^sup>e\<^sup>-\<^sup>5\<^sup>2\<close>, never finer than the spacing
  \<open>2\<^sup>-\<^sup>1\<^sup>0\<^sup>7\<^sup>4\<close> of the subnormal numbers; a rounded magnitude of \<open>2\<^sup>1\<^sup>0\<^sup>2\<^sup>4\<close> overflows to
  the infinity of its sign. It is also the value a decimal literal denotes.
\<close>

definition round64 :: "real \<Rightarrow> number" where
  "round64 x =
     (if x = 0 then Fin 0
      else (let q = pow2 (max (ilog2 \<bar>x\<bar> - 52) (- 1074));
                y = of_int (round_even (x / q)) * q
            in if pow2 1024 \<le> y then PosInf
               else if y \<le> - pow2 1024 then NegInf
               else Fin y))"

text \<open>The literal \<^verbatim>\<open>0\<close> and the operator \<^verbatim>\<open>+\<close> on numbers.\<close>

instantiation number :: "{zero, plus}"
begin

definition zero_number :: number where
  "zero_number = Fin 0"

fun plus_number :: "number \<Rightarrow> number \<Rightarrow> number" where
  "plus_number NaN _ = NaN"
| "plus_number _ NaN = NaN"
| "plus_number PosInf NegInf = NaN"
| "plus_number NegInf PosInf = NaN"
| "plus_number PosInf _ = PosInf"
| "plus_number _ PosInf = PosInf"
| "plus_number NegInf _ = NegInf"
| "plus_number _ NegInf = NegInf"
| "plus_number (Fin a) (Fin b) = round64 (a + b)"

instance ..

end

section \<open>The daily aggregator (\<^verbatim>\<open>updateNutritionData\<close>)\<close>

subsection \<open>Local days\<close>

text \<open>
  A \<^verbatim>\<open>Date\<close> is its number of milliseconds since the epoch. The time zone of the
  process is a fixed offset \<open>tz\<close>, local time minus UTC in milliseconds. The getters
  \<^verbatim>\<open>getFullYear\<close>, \<^verbatim>\<open>getMonth\<close>, \<^verbatim>\<open>getDate\<close> name the local calendar date of an instant,
  here by its day number, and the constructor \<^verbatim>\<open>new Date(y, m, d, h, min, s, ms)\<close> gives
  the instant at which the local clock shows that date and time. \<^verbatim>\<open>toISOString\<close> writes
  an instant to the millisecond and the database reads it back, so the bound that reaches
  the query is the instant itself. Creation timestamps are taken to the millisecond as
  well.
\<close>

type_synonym instant = int

definition getLocalDate :: "int \<Rightarrow> instant \<Rightarrow> int" where
  "getLocalDate tz t = (t + tz) div 86400000"

definition newDate :: "int \<Rightarrow> int \<Rightarrow> int \<Rightarrow> int \<Rightarrow> int \<Rightarrow> int \<Rightarrow> instant" where
  "newDate tz date h m s ms = date * 86400000 + h * 3600000 + m * 60000 + s * 1000 + ms - tz"

definition startOfDay :: "int \<Rightarrow> instant \<Rightarrow> instant" where
  "startOfDay tz now = newDate tz (getLocalDate tz now) 0 0 0 0"

definition endOfDay :: "int \<Rightarrow> instant \<Rightarrow> instant" where
  "endOfDay tz now = newDate tz (getLocalDate tz now) 23 59 59 999"


subsection \<open>The table and the query\<close>

text \<open>
  A row of \<^verbatim>\<open>nutrition_logs\<close> with the columns the step names; a numeric column may be
  \<^verbatim>\<open>null\<close>. The database either holds a table, its rows in the order in which a query
  returns them, or fails every request with an error. A request takes the database and
  returns it with its answer.
\<close>

record nutrition_log =
  user_id :: string
  created_at :: instant
  total_calories :: "number option"
  total_protein_g :: "number option"
  total_carbs_g :: "number option"
  total_fat_g :: "number option"
  total_fiber_g :: "number option"

datatype supabase = Table "nutrition_log list" | Failing error

text \<open>
  \<^verbatim>\<open>.eq('user_id', userId).gte('created_at', lo).lt('created_at', hi)\<close>: the three
  filters hold together, and \<^verbatim>\<open>lt\<close> is strict.
\<close>

definition matches :: "string \<Rightarrow> instant \<Rightarrow> instant \<Rightarrow> nutrition_log \<Rightarrow> bool" where
  "matches userId lo hi l \<longleftrightarrow> user_id l = userId \<and> lo \<le> created_at l \<and> created_at l < hi"

text \<open>The \<^verbatim>\<open>select\<close> request: it writes nothing.\<close>

definition select_logs ::
  "supabase \<Rightarrow> string \<Rightarrow> instant \<Rightarrow> instant \<Rightarrow> (error + nutrition_log list) \<times> supabase" where
  "select_logs db userId lo hi =
     (case db of
        Failing fetchError \<Rightarrow> (Inl fetchError, db)
      | Table rows \<Rightarrow> (Inr (filter (matches userId lo hi) rows), db))"

subsection \<open>Step \<^verbatim>\<open>update-daily-summary\<close>\<close>

record DailyTotals =
  calories :: number
  protein :: number
  carbs :: number
  fat :: number
  fiber :: number

text \<open>
  \<^verbatim>\<open>x || 0\<close>: the right operand for the falsy values \<^verbatim>\<open>null\<close>, \<^verbatim>\<open>undefined\<close>, \<^verbatim>\<open>0\<close> and
  \<^verbatim>\<open>NaN\<close>.
\<close>

definition or0 :: "number option \<Rightarrow> number" where
  "or0 x = (case x of None \<Rightarrow> 0 | Some v \<Rightarrow> if v = 0 \<or> v = NaN then 0 else v)"

definition add_log :: "DailyTotals \<Rightarrow> nutrition_log \<Rightarrow> DailyTotals" where
  "add_log acc l =
     \<lparr>calories = DailyTotals.calories acc + or0 (total_calories l),
      protein = protein acc + or0 (total_protein_g l),
      carbs = carbs acc + or0 (total_carbs_g l),
      fat = fat acc + or0 (total_fat_g l),
      fiber = fiber acc + or0 (total_fiber_g l)\<rparr>"

text \<open>\<^verbatim>\<open>todayLogs.reduce(..., { calories: 0, ... })\<close>: from the left, in the order of the rows.\<close>

definition dailyTotals :: "nutrition_log list \<Rightarrow> DailyTotals" where
  "dailyTotals todayLogs =
     foldl add_log \<lparr>calories = 0, protein = 0, carbs = 0, fat = 0, fiber = 0\<rparr> todayLogs"

text \<open>
  Following the specification: the sum of one column over a list of records, added from
  0 in the order of the list, a value that \<^verbatim>\<open>|| 0\<close> replaces counting as 0.
\<close>

definition column_sum :: "(nutrition_log \<Rightarrow> number option) \<Rightarrow> nutrition_log list \<Rightarrow> number" where
  "column_sum col logs = foldl (+) 0 (map (\<lambda>l. or0 (col l)) logs)"

text \<open>
  The step reads the clock (\<open>now\<close>) each time it runs and sends the one request. It
  returns what the callback returns or throws, and the database as the request left it.
\<close>

definition update_daily_summary ::
  "int \<Rightarrow> instant \<Rightarrow> supabase \<Rightarrow> string \<Rightarrow> (error + DailyTotals) \<times> supabase" where
  "update_daily_summary tz now db userId =
     (case select_logs db userId (startOfDay tz now) (endOfDay tz now) of
        (Inl fetchError, db') \<Rightarrow> (Inl fetchError, db')
      | (Inr todayLogs, db') \<Rightarrow> (Inr (dailyTotals todayLogs), db'))"

subsection \<open>Step \<^verbatim>\<open>check-insights-trigger\<close> and the handler\<close>

record event_data =
  logId :: string
  userId :: string
  confidenceScore :: real

record event =
  name :: string
  data :: event_data

text \<open>
  \<^verbatim>\<open>step.sendEvent\<close> of the Inngest SDK, by where it is called. Called by the handler
  itself it sends the event and resolves. Called inside the callback of a \<^verbatim>\<open>step.run\<close> it
  is a nested step tool: the SDK warns of the nesting and records the call as a step to
  be run after the current one, which in turn waits for it, so nothing is sent and the
  promise never settles. The result is the events sent and the state of the promise.
\<close>

definition sendEvent :: "bool \<Rightarrow> event \<Rightarrow> event list \<times> unit awaited" where
  "sendEvent nested e = (if nested then ([], Never) else ([e], Resolved ()))"

text \<open>
  The callback of the second step. The source awaits \<^verbatim>\<open>step.sendEvent\<close> inside it, so
  the call is a nested one.
\<close>

definition check_insights_trigger :: "event_data \<Rightarrow> event list \<times> unit awaited" where
  "check_insights_trigger d =
     (if event_data.confidenceScore d < 0.7
      then sendEvent True
             \<lparr>name = ''nutrition/low-confidence'',
              data = \<lparr>logId = logId d, userId = userId d,
                      confidenceScore = event_data.confidenceScore d\<rparr>\<rparr>
      else ([], Resolved ()))"

text \<open>
  The handler of \<^verbatim>\<open>nutrition/analysis.completed\<close>: the first step, then the second, then
  \<^verbatim>\<open>{ success: true }\<close>. The result is the events sent and how the run ends: with the
  value returned, with the error thrown by a step, or never.
\<close>

definition updateNutritionData ::
  "int \<Rightarrow> instant \<Rightarrow> supabase \<Rightarrow> event_data \<Rightarrow> event list \<times> bool awaited" where
  "updateNutritionData tz now db d =
     (case fst (update_daily_summary tz now db (userId d)) of
        Inl e \<Rightarrow> ([], Rejected e)
      | Inr _ \<Rightarrow>
         (case check_insights_trigger d of
            (sent, Resolved _) \<Rightarrow> (sent, Resolved True)
          | (sent, Rejected e) \<Rightarrow> (sent, Rejected e)
          | (sent, Never) \<Rightarrow> (sent, Never)))"

section \<open>The functions of the AI integration rules\<close>

subsection \<open>\<^verbatim>\<open>analyzeFoodImage\<close>\<close>

text \<open>
  The object of the first \<^verbatim>\<open>generateObject\<close> call, by its schema, and the object of the
  second. The value returned spreads the first object and adds two fields, so its type
  extends the first.
\<close>

record IdentifiedFood =
  name :: string
  estimatedQuantity :: string
  confidence :: real

record InitialAnalysis =
  foodItems :: "IdentifiedFood list"
  totalCaloriesEstimate :: real
  confidence :: real

record Validation =
  isReasonable :: bool
  adjustedCalories :: real
  reasoning :: string

record NutritionEstimate = InitialAnalysis +
  finalCalories :: real
  validationNotes :: string

text \<open>
  \<open>identify\<close> and \<open>validate\<close> are the two awaited \<^verbatim>\<open>generateObject\<close> calls; the prompt of
  the second is built from the object of the first. An error of either call leaves the
  function as thrown.
\<close>

definition analyzeFoodImage ::
  "(string \<Rightarrow> error + InitialAnalysis) \<Rightarrow> (InitialAnalysis \<Rightarrow> error + Validation) \<Rightarrow>
   string \<Rightarrow> error + NutritionEstimate" where
  "analyzeFoodImage identify validate imageBase64 =
     (case identify imageBase64 of
        Inl e \<Rightarrow> Inl e
      | Inr initialAnalysis \<Rightarrow>
         (case validate initialAnalysis of
            Inl e \<Rightarrow> Inl e
          | Inr validation \<Rightarrow>
              Inr (InitialAnalysis.extend initialAnalysis
                     (NutritionEstimate.fields (adjustedCalories validation)
                        (reasoning validation)))))"

subsection \<open>\<^verbatim>\<open>processNutritionAnalysis\<close>\<close>

record ProcessedEstimate = NutritionEstimate +
  requiresUserConfirmation :: bool
  message :: string

definition processNutritionAnalysis :: "NutritionEstimate \<Rightarrow> ProcessedEstimate" where
  "processNutritionAnalysis result =
     (if InitialAnalysis.confidence result < 0.7
      then NutritionEstimate.extend result
             (ProcessedEstimate.fields True
                ''I'm not entirely sure about this estimate. Please review and adjust if needed.'')
      else NutritionEstimate.extend result
             (ProcessedEstimate.fields False ''Nutrition estimate looks good!''))"


subsection \<open>Calls with a fixed outcome\<close>

text \<open>
  A first call that returns the object \<open>i\<close> for every image, a second call that returns
  the object \<open>v\<close> for every estimate, and a first call that throws \<open>e\<close>.
\<close>

definition identifying :: "InitialAnalysis \<Rightarrow> string \<Rightarrow> error + InitialAnalysis" where
  "identifying i imageBase64 = Inr i"

definition validating :: "Validation \<Rightarrow> InitialAnalysis \<Rightarrow> error + Validation" where
  "validating v initialAnalysis = Inr v"

definition throwing :: "error \<Rightarrow> string \<Rightarrow> error + InitialAnalysis" where
  "throwing e imageBase64 = Inl e"

section \<open>Example values\<close>

text \<open>
  A client as the module builds it and a row of one user's table, used in the closed
  statements below. The instant 1700000000000 is 2023-11-14 22:13:20 UTC.
\<close>

definition example_client :: OpenAI where
  "example_client = \<lparr>apiKey = ''sk-test'', maxRetries = 3, timeout = 60000\<rparr>"

definition logged_at :: "instant \<Rightarrow> nutrition_log" where
  "logged_at t =
     \<lparr>user_id = ''u1'', created_at = t, total_calories = Some (Fin 500),
      total_protein_g = Some (Fin 30), total_carbs_g = Some (Fin 40),
      total_fat_g = Some (Fin 20), total_fiber_g = None\<rparr>"

text \<open>A row of the same user whose calories are the given number and whose other columns
  are \<^verbatim>\<open>null\<close>.\<close>

definition snack :: "instant \<Rightarrow> number \<Rightarrow> nutrition_log" where
  "snack t kcal =
     \<lparr>user_id = ''u1'', created_at = t, total_calories = Some kcal, total_protein_g = None,
      total_carbs_g = None, total_fat_g = None, total_fiber_g = None\<rparr>"

text \<open>A reply with the required fields whose calorie total is not the sum of its items.\<close>

definition apple_analysis :: NutritionAnalysis where
  "apple_analysis =
     \<lparr>NutritionAnalysis.foodItems =
        [\<lparr>FoodItem.name = ''apple'', quantity = ''1 medium'', FoodItem.calories = 95,
          protein_g = 0.5, carbs_g = 25, fat_g = 0.3, fiber_g = 4.4\<rparr>],
      totalCalories = 500, totalProtein = 0.5, totalCarbs = 25, totalFat = 0.3,
      totalFiber = 4.4, NutritionAnalysis.confidenceScore = 0.85,
      analysisNotes = ''portion estimated from a single photo''\<rparr>"

text \<open>The objects the two calls of \<^verbatim>\<open>analyzeFoodImage\<close> return in the example of the
  specification: an apple of 95 kcal, judged reasonable.\<close>

definition apple_initial :: InitialAnalysis where
  "apple_initial =
     \<lparr>InitialAnalysis.foodItems =
        [\<lparr>IdentifiedFood.name = ''apple'', estimatedQuantity = ''1 medium'',
          IdentifiedFood.confidence = 0.9\<rparr>],
      totalCaloriesEstimate = 95, InitialAnalysis.confidence = 0.85\<rparr>"

definition apple_validation :: Validation where
  "apple_validation =
     \<lparr>isReasonable = True, adjustedCalories = 95, reasoning = ''plausible for one apple''\<rparr>"

text \<open>A second opinion with the same calories and another rationale.\<close>

definition apple_validation_reworded :: Validation where
  "apple_validation_reworded =
     \<lparr>isReasonable = True, adjustedCalories = 95, reasoning = ''matches a medium apple''\<rparr>"

section \<open>Properties of the daily aggregator\<close>

subsection \<open>The day window\<close>

lemma day_bounds:
  "startOfDay tz now = getLocalDate tz now * 86400000 - tz"
  "endOfDay tz now = startOfDay tz now + 86399999"
  by (simp_all add: startOfDay_def endOfDay_def newDate_def)

lemma now_in_day: "startOfDay tz now \<le> now" "now \<le> endOfDay tz now"
  unfolding day_bounds getLocalDate_def by linarith+

text \<open>
  The query selects the rows of the user created on the local day of \<open>now\<close>, except those
  created in its last millisecond: the window is \<open>[00:00:00.000, 23:59:59.999)\<close>.
\<close>

lemma matches_today_iff:
  "matches uid (startOfDay tz now) (endOfDay tz now) l \<longleftrightarrow>
     user_id l = uid \<and> getLocalDate tz (created_at l) = getLocalDate tz now \<and>
     created_at l \<noteq> endOfDay tz now"
  unfolding matches_def day_bounds getLocalDate_def by (auto; linarith)

lemma next_midnight_not_selected:
  "\<not> matches uid (startOfDay tz now) (endOfDay tz now) (l\<lparr>created_at := endOfDay tz now + 1\<rparr>)"
  by (simp add: matches_def)

lemma end_of_day_not_selected:
  "\<not> matches uid (startOfDay tz now) (endOfDay tz now) (l\<lparr>created_at := endOfDay tz now\<rparr>)"
  by (simp add: matches_def)

lemma end_of_day_is_today:
  "getLocalDate tz (endOfDay tz now) = getLocalDate tz now"
  unfolding day_bounds getLocalDate_def by linarith

text \<open>
  Claim C1. A record is counted in the day's totals exactly when it was created in the
  local day, and one created at exactly 23:59:59.999 local time is counted. The step does
  not do the second: with the process one hour ahead of UTC and the step running at
  1700000000000, the day ends at 1700002799999, an instant of the same local day, and the
  totals over a table holding one record of the user created at that instant are all zero.
\<close>

theorem last_millisecond_left_out:
  "endOfDay 3600000 1700000000000 = 1700002799999 \<and>
   getLocalDate 3600000 1700002799999 = getLocalDate 3600000 1700000000000 \<and>
   fst (update_daily_summary 3600000 1700000000000 (Table [logged_at 1700002799999]) ''u1'')
     = Inr \<lparr>calories = 0, protein = 0, carbs = 0, fat = 0, fiber = 0\<rparr>"
  by (simp add: update_daily_summary_def select_logs_def matches_def startOfDay_def endOfDay_def
      newDate_def getLocalDate_def dailyTotals_def logged_at_def)

subsection \<open>Evaluating sums\<close>

lemma bitlen_numeral:
  "bitlen (numeral (Num.Bit0 n)) = bitlen (numeral n) + 1"
  "bitlen (numeral (Num.Bit1 n)) = bitlen (numeral n) + 1"
  "bitlen 1 = 1"
  by (subst compute_bitlen, simp)+

lemmas number_eval =
  round64_def ilog2_def round_even_def pow2_def Let_def bitlen_numeral zero_number_def

text \<open>
  The addition rounds: the numbers that \<^verbatim>\<open>0.1\<close> and \<^verbatim>\<open>0.2\<close> denote add up to the number
  that \<^verbatim>\<open>0.30000000000000004\<close> denotes, which is not the one that \<^verbatim>\<open>0.3\<close> denotes.
\<close>

lemma tenth_plus_fifth:
  "round64 (1 / 10) + round64 (2 / 10) = Fin (1351079888211149 / 4503599627370496)"
  "round64 (30000000000000004 / 100000000000000000) = Fin (1351079888211149 / 4503599627370496)"
  "round64 (3 / 10) = Fin (5404319552844595 / 18014398509481984)"
  by (simp_all add: number_eval)

lemma infinities_absorb:
  "Fin (2 ^ 1023) + Fin (2 ^ 1023) = PosInf" "PosInf + Fin x = PosInf"
  "PosInf + NegInf = NaN" "NaN + Fin x = NaN"
  by (simp_all add: number_eval)

subsection \<open>The fold\<close>

lemma or0_simps: "or0 None = 0" "or0 (Some NaN) = 0" "or0 (Some 0) = 0"
  "v \<noteq> 0 \<Longrightarrow> v \<noteq> NaN \<Longrightarrow> or0 (Some v) = v"
  by (simp_all add: or0_def)

lemma add_log_sel:
  "DailyTotals.calories (add_log acc l) = DailyTotals.calories acc + or0 (total_calories l)"
  "protein (add_log acc l) = protein acc + or0 (total_protein_g l)"
  "carbs (add_log acc l) = carbs acc + or0 (total_carbs_g l)"
  "fat (add_log acc l) = fat acc + or0 (total_fat_g l)"
  "fiber (add_log acc l) = fiber acc + or0 (total_fiber_g l)"
  by (simp_all add: add_log_def)

text \<open>The fold over records is five folds over numbers; no law of addition is needed.\<close>

lemma foldl_add_log:
  "foldl add_log acc logs =
     \<lparr>calories = foldl (+) (DailyTotals.calories acc) (map (\<lambda>l. or0 (total_calories l)) logs),
      protein = foldl (+) (protein acc) (map (\<lambda>l. or0 (total_protein_g l)) logs),
      carbs = foldl (+) (carbs acc) (map (\<lambda>l. or0 (total_carbs_g l)) logs),
      fat = foldl (+) (fat acc) (map (\<lambda>l. or0 (total_fat_g l)) logs),
      fiber = foldl (+) (fiber acc) (map (\<lambda>l. or0 (total_fiber_g l)) logs)\<rparr>"
proof (induction logs arbitrary: acc)
  case Nil
  show ?case by simp
next
  case (Cons l logs)
  show ?case by (simp add: Cons.IH add_log_sel)
qed

lemma dailyTotals_column_sums:
  "dailyTotals logs =
     \<lparr>calories = column_sum total_calories logs,
      protein = column_sum total_protein_g logs,
      carbs = column_sum total_carbs_g logs,
      fat = column_sum total_fat_g logs,
      fiber = column_sum total_fiber_g logs\<rparr>"
  by (simp add: dailyTotals_def foldl_add_log column_sum_def)

text \<open>
  Claim C7. Over a table, the step \<^verbatim>\<open>update-daily-summary\<close> returns, for the list of
  records it fetched, the five sums over that list of the corresponding columns, each
  added from 0 in the order of the list, where a \<^verbatim>\<open>null\<close> or missing value counts as 0.
\<close>

theorem update_daily_summary_fieldwise_sum:
  "fst (update_daily_summary tz now (Table rows) uid) =
     Inr \<lparr>calories =
            column_sum total_calories (filter (matches uid (startOfDay tz now) (endOfDay tz now)) rows),
          protein =
            column_sum total_protein_g (filter (matches uid (startOfDay tz now) (endOfDay tz now)) rows),
          carbs =
            column_sum total_carbs_g (filter (matches uid (startOfDay tz now) (endOfDay tz now)) rows),
          fat =
            column_sum total_fat_g (filter (matches uid (startOfDay tz now) (endOfDay tz now)) rows),
          fiber =
            column_sum total_fiber_g (filter (matches uid (startOfDay tz now) (endOfDay tz now)) rows)\<rparr>
   \<and> column_sum col [] = 0
   \<and> column_sum col (logs @ [l]) = column_sum col logs + or0 (col l)
   \<and> or0 None = 0 \<and> or0 (Some (Fin x)) = Fin x
   \<and> or0 (Some PosInf) = PosInf \<and> or0 (Some NegInf) = NegInf"
  by (simp add: update_daily_summary_def select_logs_def dailyTotals_column_sums column_sum_def
      or0_def zero_number_def)

text \<open>
  Two records of the day with 0.1 and 0.2 kcal and no other value: the calories are the
  rounded sum, and the columns that are \<^verbatim>\<open>null\<close> in both give 0.
\<close>

lemma two_snacks:
  "fst (update_daily_summary 0 1700000000000
          (Table [snack 1699999000000 (round64 (1 / 10)), snack 1700000000000 (round64 (2 / 10))])
          ''u1'')
     = Inr \<lparr>calories = Fin (1351079888211149 / 4503599627370496), protein = 0, carbs = 0,
            fat = 0, fiber = 0\<rparr>"
  by (simp add: update_daily_summary_def select_logs_def matches_def startOfDay_def endOfDay_def
      newDate_def getLocalDate_def dailyTotals_def add_log_def or0_def snack_def number_eval)

lemma update_daily_summary_Failing:
  "update_daily_summary tz now (Failing e) uid = (Inl e, Failing e)"
  by (simp add: update_daily_summary_def select_logs_def)


subsection \<open>Running the step again\<close>




subsection \<open>The low-confidence event\<close>

lemma updateNutritionData_Failing:
  "updateNutritionData tz now (Failing e) d = ([], Rejected e)"
  by (simp add: updateNutritionData_def update_daily_summary_Failing)

text \<open>No run of the handler sends an event, and a run over a table ends exactly when the
  score is not below 0.7.\<close>

lemma updateNutritionData_sends_nothing:
  "fst (updateNutritionData tz now db d) = []"
  by (cases db)
     (simp_all add: updateNutritionData_def update_daily_summary_def select_logs_def
        check_insights_trigger_def sendEvent_def)

lemma updateNutritionData_Table:
  "updateNutritionData tz now (Table rows) d =
     ([], if event_data.confidenceScore d < 0.7 then Never else Resolved True)"
  by (simp add: updateNutritionData_def update_daily_summary_def select_logs_def
      check_insights_trigger_def sendEvent_def)

text \<open>
  Claim C2. The event \<^verbatim>\<open>nutrition/low-confidence\<close> is sent exactly when the confidence
  score of the event processed is below 0.7. The handler does not do this at 0.65: the
  step awaits a step tool nested in its own callback, so the run sends no event and
  never ends. At 0.70 it sends none and returns.
\<close>

theorem low_confidence_event_not_sent:
  "updateNutritionData 0 1700000000000 (Table [logged_at 1700000000000])
     \<lparr>logId = ''log1'', userId = ''u1'', confidenceScore = 0.65\<rparr>
   = ([], Never) \<and>
   updateNutritionData 0 1700000000000 (Table [logged_at 1700000000000])
     \<lparr>logId = ''log2'', userId = ''u1'', confidenceScore = 0.70\<rparr>
   = ([], Resolved True)"
  by (simp add: updateNutritionData_Table)

section \<open>Properties of the vision estimator\<close>

subsection \<open>What the function does with a reply\<close>

lemma log_fields_foodItems:
  "map_of ps ''foodItems'' = Some (JArr xs) \<Longrightarrow> log_fields (JObj ps) = Inr ()"
  by (simp add: log_fields_def property_def)

lemma log_fields_analysis_json: "log_fields (analysis_json a) = Inr ()"
  by (simp add: analysis_json_def log_fields_foodItems)

lemma is_FoodItem_item_json: "is_FoodItem (item_json i)"
  by (simp add: is_FoodItem_def item_json_def is_num_def is_str_def)

lemma is_NutritionAnalysis_analysis_json: "is_NutritionAnalysis (analysis_json a)"
  by (simp add: is_NutritionAnalysis_def analysis_json_def is_num_def is_str_def
      list_all_iff is_FoodItem_item_json)

lemma analyze_with_content:
  "create client img = Inr r \<Longrightarrow> first_content r = Some c \<Longrightarrow> c \<noteq> [] \<Longrightarrow>
   analyzeImageWithOpenAI (Some client) create parse img =
     (case parse c of
        None \<Rightarrow> Inl (Error ''Invalid JSON response from OpenAI'')
      | Some analysis \<Rightarrow> (case log_fields analysis of Inl e \<Rightarrow> Inl e | Inr _ \<Rightarrow> Inr analysis))"
  by (simp add: analyzeImageWithOpenAI_def getOpenAIClient_def)

lemma first_content_completion_of: "first_content (completion_of c) = Some c"
  by (simp add: first_content_def completion_of_def)

subsection \<open>Malformed replies\<close>

text \<open>
  Claim C4, as stated, at a concrete input: the reply \<^verbatim>\<open>{"foodItems": []}\<close> is JSON that
  lacks seven of the eight required fields of \<^verbatim>\<open>NutritionAnalysis\<close>, and the function
  raises nothing on it: it returns the parsed object to its caller.
\<close>

theorem incomplete_json_returned: \<open>
  \<not> is_NutritionAnalysis (JObj [(''foodItems'', JArr [])]) \<and>
  analyzeImageWithOpenAI (Some example_client)
    (replying (completion_of ''{"foodItems": []}''))
    (map_of [(''{"foodItems": []}'', JObj [(''foodItems'', JArr [])])]) ''aGVsbG8=''
  = Inr (JObj [(''foodItems'', JArr [])])\<close>
  by (simp add: is_NutritionAnalysis_def is_num_def analyzeImageWithOpenAI_def getOpenAIClient_def
      replying_def completion_of_def first_content_def log_fields_def property_def)

text \<open>
  Claim C4, amended. For every reply with a content that the parser rejects, the function
  throws the generic error with the message \<^verbatim>\<open>Invalid JSON response from OpenAI\<close> and
  returns nothing. A content that parses is not compared with the interface: whenever the
  three reads of the log call succeed on the parsed value, that value is returned as it is.
\<close>

theorem malformed_reply_amended:
  "create client img = Inr r \<Longrightarrow> first_content r = Some c \<Longrightarrow> c \<noteq> [] \<Longrightarrow>
   (parse c = None \<longrightarrow>
      analyzeImageWithOpenAI (Some client) create parse img =
        Inl (Error ''Invalid JSON response from OpenAI'')) \<and>
   (\<forall>j. parse c = Some j \<and> log_fields j = Inr () \<longrightarrow>
      analyzeImageWithOpenAI (Some client) create parse img = Inr j)"
  by (simp add: analyze_with_content)

text \<open>A reply in prose is rejected; a reply with items and a calorie total only is returned.\<close>

theorem malformed_reply_amended_witness: \<open>
  analyzeImageWithOpenAI (Some example_client)
    (replying (completion_of ''I cannot identify any food in this image.''))
    Map.empty ''aGVsbG8=''
  = Inl (Error ''Invalid JSON response from OpenAI'') \<and>
  analyzeImageWithOpenAI (Some example_client)
    (replying (completion_of ''{"foodItems": [], "totalCalories": 0}''))
    (map_of [(''{"foodItems": [], "totalCalories": 0}'',
              JObj [(''foodItems'', JArr []), (''totalCalories'', JNum 0)])]) ''aGVsbG8=''
  = Inr (JObj [(''foodItems'', JArr []), (''totalCalories'', JNum 0)])\<close>
proof -
  let ?prose = "''I cannot identify any food in this image.''"
  let ?json = \<open>''{"foodItems": [], "totalCalories": 0}''\<close>
  let ?parsed = "JObj [(''foodItems'', JArr []), (''totalCalories'', JNum 0)]"
  have logged: "log_fields ?parsed = Inr ()"
    by (simp add: log_fields_foodItems)
  have "analyzeImageWithOpenAI (Some example_client) (replying (completion_of ?prose))
          Map.empty ''aGVsbG8='' = Inl (Error ''Invalid JSON response from OpenAI'')"
    using malformed_reply_amended [where create = "replying (completion_of ?prose)"
        and client = example_client and img = "''aGVsbG8=''" and r = "completion_of ?prose"
        and c = ?prose and parse = Map.empty]
    by (simp add: replying_def first_content_completion_of)
  moreover
  have "analyzeImageWithOpenAI (Some example_client) (replying (completion_of ?json))
          (map_of [(?json, ?parsed)]) ''aGVsbG8='' = Inr ?parsed"
    using malformed_reply_amended [where create = "replying (completion_of ?json)"
        and client = example_client and img = "''aGVsbG8=''" and r = "completion_of ?json"
        and c = ?json and parse = "map_of [(?json, ?parsed)]"] logged
    by (simp add: replying_def first_content_completion_of)
  ultimately show ?thesis by simp
qed

subsection \<open>The missing key\<close>

text \<open>
  Claim C8, as stated, at a concrete input: with the variable unset, loading the module
  completes with the client left \<^verbatim>\<open>null\<close>, so nothing is fatal at startup, and the
  configuration error is the outcome of a request.
\<close>

theorem missing_key_not_fatal_at_load:
  "load_module None = Inr None \<and>
   analyzeImageWithOpenAI None (replying (completion_of ''{}'')) Map.empty ''aGVsbG8=''
     = Inl (Error ''OPENAI_API_KEY environment variable is required'')"
  by (simp add: load_module_def analyzeImageWithOpenAI_def getOpenAIClient_def)

text \<open>
  Claim C8, amended. When the key is unset or empty, loading the module leaves the client
  unset without failing, and every later call of the estimator throws the error
  \<^verbatim>\<open>OPENAI_API_KEY environment variable is required\<close>, whatever the provider and the parser
  would do: it sends no request and returns no result.
\<close>

theorem missing_key_amended:
  "env_key = None \<or> env_key = Some [] \<Longrightarrow>
   load_module env_key = Inr None \<and>
   analyzeImageWithOpenAI None create parse img =
     Inl (Error ''OPENAI_API_KEY environment variable is required'')"
  by (auto simp: load_module_def analyzeImageWithOpenAI_def getOpenAIClient_def)

text \<open>The empty key, with a provider and a parser that would deliver a complete reply.\<close>

theorem missing_key_amended_witness:
  "load_module (Some '''') = Inr None \<and>
   analyzeImageWithOpenAI None (replying (completion_of ''reply''))
     (map_of [(''reply'', analysis_json apple_analysis)]) ''aGVsbG8=''
   = Inl (Error ''OPENAI_API_KEY environment variable is required'')"
  using missing_key_amended [of "Some ''''" "replying (completion_of ''reply'')"
      "map_of [(''reply'', analysis_json apple_analysis)]" "''aGVsbG8=''"]
  by simp

subsection \<open>Totals that disagree with the items\<close>

text \<open>
  Claim C9. A reply that has the shape of \<^verbatim>\<open>NutritionAnalysis\<close> and whose totals are not
  the sums of its items' fields is returned by the function as it was parsed: no error,
  no recomputed total.
\<close>

theorem inconsistent_totals_returned:
  "\<not> totals_match_items a \<Longrightarrow> create client img = Inr r \<Longrightarrow> first_content r = Some c \<Longrightarrow>
   c \<noteq> [] \<Longrightarrow> parse c = Some (analysis_json a) \<Longrightarrow>
   analyzeImageWithOpenAI (Some client) create parse img = Inr (analysis_json a)"
  by (simp add: analyze_with_content log_fields_analysis_json)

text \<open>One apple of 95 kcal under a reported total of 500 kcal.\<close>

theorem inconsistent_totals_returned_witness:
  "\<not> totals_match_items apple_analysis \<and>
   totalCalories apple_analysis = 500 \<and>
   sum_list (map FoodItem.calories (NutritionAnalysis.foodItems apple_analysis)) = 95 \<and>
   analyzeImageWithOpenAI (Some example_client) (replying (completion_of ''reply''))
     (map_of [(''reply'', analysis_json apple_analysis)]) ''aGVsbG8=''
   = Inr (analysis_json apple_analysis)"
proof -
  have differ: "\<not> totals_match_items apple_analysis"
    by (simp add: totals_match_items_def apple_analysis_def)
  have "analyzeImageWithOpenAI (Some example_client) (replying (completion_of ''reply''))
          (map_of [(''reply'', analysis_json apple_analysis)]) ''aGVsbG8=''
        = Inr (analysis_json apple_analysis)"
    using inconsistent_totals_returned [where a = apple_analysis
        and create = "replying (completion_of ''reply'')" and client = example_client
        and img = "''aGVsbG8=''" and r = "completion_of ''reply''" and c = "''reply''"
        and parse = "map_of [(''reply'', analysis_json apple_analysis)]"] differ
    by (simp add: replying_def first_content_completion_of)
  with differ show ?thesis by (simp add: apple_analysis_def)
qed

subsection \<open>A reply without content\<close>

text \<open>
  Claim C10. When the completion has no choice, or its first choice has no message, or
  that message has no content (or an empty one), the function throws
  \<^verbatim>\<open>No response from OpenAI\<close> and returns no analysis.
\<close>

theorem no_content_throws:
  "create client img = Inr r \<Longrightarrow> first_content r = None \<or> first_content r = Some [] \<Longrightarrow>
   analyzeImageWithOpenAI (Some client) create parse img = Inl (Error ''No response from OpenAI'')"
  by (auto simp: analyzeImageWithOpenAI_def getOpenAIClient_def)

text \<open>The three shapes of the claim, and the empty content.\<close>

theorem no_content_throws_witness:
  "analyzeImageWithOpenAI (Some example_client) (replying \<lparr>choices = []\<rparr>)
     Map.empty ''aGVsbG8='' = Inl (Error ''No response from OpenAI'') \<and>
   analyzeImageWithOpenAI (Some example_client)
     (replying \<lparr>choices = [\<lparr>choice.message = None\<rparr>]\<rparr>)
     Map.empty ''aGVsbG8='' = Inl (Error ''No response from OpenAI'') \<and>
   analyzeImageWithOpenAI (Some example_client)
     (replying \<lparr>choices = [\<lparr>choice.message = Some \<lparr>content = None\<rparr>\<rparr>]\<rparr>)
     Map.empty ''aGVsbG8='' = Inl (Error ''No response from OpenAI'') \<and>
   analyzeImageWithOpenAI (Some example_client) (replying (completion_of ''''))
     Map.empty ''aGVsbG8='' = Inl (Error ''No response from OpenAI'')"
proof -
  let ?none = "\<lparr>choices = []\<rparr>"
  let ?no_message = "\<lparr>choices = [\<lparr>choice.message = None\<rparr>]\<rparr>"
  let ?no_content = "\<lparr>choices = [\<lparr>choice.message = Some \<lparr>content = None\<rparr>\<rparr>]\<rparr>"
  have empty: "first_content ?none = None" "first_content ?no_message = None"
    "first_content ?no_content = None" "first_content (completion_of '''') = Some []"
    by (simp_all add: first_content_def completion_of_def)
  show ?thesis
    using no_content_throws [where create = "replying ?none" and client = example_client
        and img = "''aGVsbG8=''" and r = ?none and parse = Map.empty]
      no_content_throws [where create = "replying ?no_message" and client = example_client
        and img = "''aGVsbG8=''" and r = ?no_message and parse = Map.empty]
      no_content_throws [where create = "replying ?no_content" and client = example_client
        and img = "''aGVsbG8=''" and r = ?no_content and parse = Map.empty]
      no_content_throws [where create = "replying (completion_of '''')"
        and client = example_client and img = "''aGVsbG8=''" and r = "completion_of ''''"
        and parse = Map.empty]
      empty
    by (simp add: replying_def)
qed

section \<open>Properties of the functions of the AI integration rules\<close>

text \<open>
  Claim C3. The result of \<^verbatim>\<open>processNutritionAnalysis\<close> requires the user's confirmation
  exactly when the confidence of the estimate is below 0.7; at 0.7 it does not.
\<close>

theorem requiresUserConfirmation_iff:
  "requiresUserConfirmation (processNutritionAnalysis r) = (InitialAnalysis.confidence r < 0.7) \<and>
   \<not> requiresUserConfirmation
       (processNutritionAnalysis (r\<lparr>InitialAnalysis.confidence := 0.7\<rparr>))"
  by (simp add: processNutritionAnalysis_def NutritionEstimate.defs ProcessedEstimate.defs)

lemma processNutritionAnalysis_keeps_estimate:
  "NutritionEstimate.truncate (processNutritionAnalysis r) = r"
  by (simp add: processNutritionAnalysis_def NutritionEstimate.defs ProcessedEstimate.defs)

lemma analyzeFoodImage_returns:
  "identify img = Inr i \<Longrightarrow> validate i = Inr v \<Longrightarrow>
   analyzeFoodImage identify validate img =
     Inr \<lparr>InitialAnalysis.foodItems = InitialAnalysis.foodItems i,
          totalCaloriesEstimate = totalCaloriesEstimate i,
          InitialAnalysis.confidence = InitialAnalysis.confidence i,
          finalCalories = adjustedCalories v, validationNotes = reasoning v\<rparr>"
  by (simp add: analyzeFoodImage_def InitialAnalysis.defs NutritionEstimate.defs)

text \<open>
  Claim C5, as stated, at concrete inputs. With the same first-stage estimate and the same
  adjusted calories, two validators that word their rationale differently give two
  different records: the notes of the record are the validator's, and the first-stage
  object has no notes and no macro breakdown to pass through. And an error of a kind the
  specification does not define, thrown by the first call, leaves the function as it is.
\<close>

theorem notes_come_from_validator:
  "analyzeFoodImage (identifying apple_initial) (validating apple_validation) ''aGVsbG8=''
     = Inr \<lparr>InitialAnalysis.foodItems = InitialAnalysis.foodItems apple_initial,
            totalCaloriesEstimate = 95, InitialAnalysis.confidence = 0.85,
            finalCalories = 95, validationNotes = ''plausible for one apple''\<rparr> \<and>
   analyzeFoodImage (identifying apple_initial) (validating apple_validation_reworded) ''aGVsbG8=''
     = Inr \<lparr>InitialAnalysis.foodItems = InitialAnalysis.foodItems apple_initial,
            totalCaloriesEstimate = 95, InitialAnalysis.confidence = 0.85,
            finalCalories = 95, validationNotes = ''matches a medium apple''\<rparr> \<and>
   analyzeFoodImage (throwing TypeError) (validating apple_validation) ''aGVsbG8=''
     = Inl TypeError"
  by (simp add: analyzeFoodImage_def InitialAnalysis.defs NutritionEstimate.defs
      identifying_def validating_def throwing_def apple_initial_def apple_validation_def
      apple_validation_reworded_def)

text \<open>
  Claim C5, amended. For every image, \<^verbatim>\<open>analyzeFoodImage\<close> has one of two outcomes and no
  other. Either it throws, unchanged, the error that its first call threw, or that its
  second call threw on the first-stage estimate. Or it returns a record with every field
  set: the final calories are the validator's adjusted calories, the validation notes are
  the validator's reasoning, and the food items, the calorie estimate and the confidence
  are those of the first-stage estimate.
\<close>

theorem analyzeFoodImage_outcomes:
  "(\<exists>e. analyzeFoodImage identify validate img = Inl e \<and>
        (identify img = Inl e \<or> (\<exists>i. identify img = Inr i \<and> validate i = Inl e))) \<or>
   (\<exists>i v. identify img = Inr i \<and> validate i = Inr v \<and>
        analyzeFoodImage identify validate img =
          Inr \<lparr>InitialAnalysis.foodItems = InitialAnalysis.foodItems i,
               totalCaloriesEstimate = totalCaloriesEstimate i,
               InitialAnalysis.confidence = InitialAnalysis.confidence i,
               finalCalories = adjustedCalories v, validationNotes = reasoning v\<rparr>)"
proof (cases "identify img")
  case (Inl e)
  then show ?thesis by (simp add: analyzeFoodImage_def)
next
  case first: (Inr i)
  show ?thesis
  proof (cases "validate i")
    case (Inl e)
    with first show ?thesis by (simp add: analyzeFoodImage_def)
  next
    case (Inr v)
    with first show ?thesis by (simp add: analyzeFoodImage_returns)
  qed
qed

text \<open>The example of the specification, and a validator that fails.\<close>

theorem analyzeFoodImage_outcomes_witness:
  "analyzeFoodImage (identifying apple_initial) (validating apple_validation) ''aGVsbG8=''
     = Inr \<lparr>InitialAnalysis.foodItems = InitialAnalysis.foodItems apple_initial,
            totalCaloriesEstimate = 95, InitialAnalysis.confidence = 0.85,
            finalCalories = 95, validationNotes = ''plausible for one apple''\<rparr>"
  using analyzeFoodImage_outcomes [of "identifying apple_initial" "validating apple_validation"
      "''aGVsbG8=''"]
  by (auto simp: identifying_def validating_def apple_initial_def apple_validation_def)

text \<open>The end-to-end example of the specification: 95 kcal, confidence 0.85.\<close>

lemma apple_end_to_end:
  "analyzeFoodImage (identifying apple_initial) (validating apple_validation) ''aGVsbG8='' = Inr r \<Longrightarrow>
   finalCalories r = 95 \<and> \<not> requiresUserConfirmation (processNutritionAnalysis r)"
  by (auto simp: analyzeFoodImage_def InitialAnalysis.defs NutritionEstimate.defs
      ProcessedEstimate.defs processNutritionAnalysis_def apple_initial_def apple_validation_def
      identifying_def validating_def)

end
